theory Spec2Isabelle
  imports Complex_Main "HOL-Library.AList"
begin

section \<open>JavaScript values used by the client\<close>

text \<open>
  Values that cross the HTTP boundary are JSON values. An object is an association list
  in key order, as \<open>JSON.parse\<close> delivers it (keys distinct); \<open>undefined\<close> is the
  \<open>None\<close> of an option type. Numbers are rationals: the client only tests them for
  truthiness and passes them on.
\<close>

datatype json =
    JNull
  | JBool bool
  | JNumber rat
  | JString string
  | JArray "json list"
  | JObject "(string \<times> json) list"

text \<open>
  A JavaScript number as \<open>Number.parseInt\<close> returns it. \<open>Num n\<close> is the integer
  \<open>n\<close>, held exactly (its magnitude is at most \<open>2^53\<close>). \<open>Rounded n\<close> is what the
  engine makes of a larger integer \<open>n\<close>: a double near \<open>n\<close> or an infinity, which need
  not be \<open>n\<close> and which this model does not compute.
\<close>

datatype jsnum = NaN | Num int | Rounded int

text \<open>
  Modelled from the spec: the error classes \<open>AuthenticationError\<close>, \<open>RateLimitError\<close>
  and \<open>DatabricksApiError\<close> are imported from \<open>utils/errors.js\<close>, which is not among
  the sources. Following the spec's data model (\<open>AuthenticationError\<close>,
  \<open>RateLimitError{retryAfterSeconds}\<close>, \<open>ApiError{httpStatus, code?, message}\<close>), each
  constructor keeps the arguments of the \<open>new\<close> expression in the order the source passes
  them: the message; the message and the retry-after seconds; the message, the HTTP status
  and the error code. The message of \<open>DatabricksApiError\<close> is a JSON value, since the
  source passes on whatever truthy value the response body holds.

  The other constructors are JavaScript's own: \<open>Error\<close> is the plain error of
  \<open>validateCredentials\<close>, \<open>SyntaxError\<close> what \<open>JSON.parse\<close> throws, \<open>TypeError\<close>
  what a property read on \<open>null\<close> or \<open>undefined\<close> throws (and what \<open>fetch\<close> rejects
  with).
\<close>

datatype js_error =
    Error string
  | AuthenticationError string
  | RateLimitError string jsnum
  | DatabricksApiError json nat "json option"
  | SyntaxError
  | TypeError

text \<open>JavaScript truthiness of a JSON value; \<open>undefined\<close> is falsy.\<close>

fun truthy :: "json \<Rightarrow> bool" where
  "truthy JNull = False"
| "truthy (JBool b) = b"
| "truthy (JNumber n) = (n \<noteq> 0)"
| "truthy (JString s) = (s \<noteq> [])"
| "truthy (JArray xs) = True"
| "truthy (JObject kvs) = True"

text \<open>\<open>a || d\<close> where \<open>a\<close> may be \<open>undefined\<close> and \<open>d\<close> is a value.\<close>

definition or_default :: "json option \<Rightarrow> json \<Rightarrow> json" where
  "or_default a d = (case a of None \<Rightarrow> d | Some v \<Rightarrow> if truthy v then v else d)"

text \<open>
  The property read \<open>v.k\<close>. On \<open>undefined\<close> and \<open>null\<close> it throws; on an object it
  is the own property; on a number, boolean, string or array it is \<open>undefined\<close> for every
  key the client reads (none of them is a prototype property or an index).
\<close>

definition get_prop :: "json option \<Rightarrow> string \<Rightarrow> js_error + json option" where
  "get_prop v k =
     (case v of
        None \<Rightarrow> Inl TypeError
      | Some JNull \<Rightarrow> Inl TypeError
      | Some (JObject kvs) \<Rightarrow> Inr (map_of kvs k)
      | Some _ \<Rightarrow> Inr None)"

text \<open>Object spread \<open>{...a, ...b}\<close>: the properties of \<open>b\<close> override those of \<open>a\<close>.\<close>

definition spread :: "(string \<times> string) list \<Rightarrow> (string \<times> string) list \<Rightarrow> (string \<times> string) list" where
  "spread a b = foldl (\<lambda>acc (k, v). AList.update k v acc) a b"

subsection \<open>Numbers and strings\<close>

definition digit_char :: "nat \<Rightarrow> char" where
  "digit_char d = ''0123456789'' ! d"

text \<open>The decimal text of a non-negative integer, as a template literal prints it.\<close>

function string_of_nat :: "nat \<Rightarrow> string" where
  "string_of_nat n =
     (if n < 10 then [digit_char n]
      else string_of_nat (n div 10) @ [digit_char (n mod 10)])"
  by pat_completeness auto
termination
  by (relation "measure id") auto

declare string_of_nat.simps [simp del]

text \<open>
  \<open>Number.parseInt(s, 10)\<close>: skip leading white space, read an optional sign, then the
  longest run of decimal digits; no digit gives \<open>NaN\<close>. Header values are byte strings,
  so the white space characters are those below 256. JavaScript returns the value as a
  double: up to \<open>2^53\<close> that is the integer itself, beyond it a rounded number.
\<close>

definition is_white_space :: "char \<Rightarrow> bool" where
  "is_white_space c = ((of_char c :: nat) \<in> {9, 10, 11, 12, 13, 32, 160})"

definition is_digit :: "char \<Rightarrow> bool" where
  "is_digit c = (48 \<le> (of_char c :: nat) \<and> (of_char c :: nat) \<le> 57)"

definition digits_value :: "string \<Rightarrow> int" where
  "digits_value ds = foldl (\<lambda>acc c. acc * 10 + (of_char c - 48)) 0 ds"

definition parseInt :: "string \<Rightarrow> jsnum" where
  "parseInt s =
     (let t = dropWhile is_white_space s;
          neg = (t \<noteq> [] \<and> hd t = CHR ''-'');
          u = (if t \<noteq> [] \<and> (hd t = CHR ''-'' \<or> hd t = CHR ''+'') then tl t else t);
          ds = takeWhile is_digit u
      in if ds = [] then NaN
         else if digits_value ds \<le> 9007199254740992 then
           Num (if neg then - digits_value ds else digits_value ds)
         else Rounded (if neg then - digits_value ds else digits_value ds))"

section \<open>Tenant credentials\<close>

record TenantCredentials =
  host :: string
  token :: string
  warehouseId :: "string option"

text \<open>
  \<open>validateCredentials\<close>: \<open>!credentials.host\<close> holds of a string exactly when it is
  empty. The function takes no transport: it cannot send anything.
\<close>

definition validateCredentials :: "TenantCredentials \<Rightarrow> js_error + unit" where
  "validateCredentials credentials =
     (if host credentials = [] then
        Inl (Error ''Missing X-Databricks-Host header. Provide your Databricks workspace URL.'')
      else if token credentials = [] then
        Inl (Error ''Missing X-Databricks-Token header. Provide your Databricks personal access token.'')
      else Inr ())"

section \<open>The HTTP boundary\<close>

datatype http_method = GET | POST | PUT | PATCH | DELETE

text \<open>
  The \<open>RequestInit\<close> fields the client sets (\<open>init_method\<close> is the field
  \<open>method\<close>); an absent field is \<open>None\<close>.
\<close>

record RequestInit =
  init_method :: "http_method option"
  body :: "string option"
  headers :: "(string \<times> string) list option"

text \<open>
  What the client reads of a \<open>Response\<close>: \<open>status\<close>, \<open>headers.get(name)\<close>
  (\<open>None\<close> is \<open>null\<close>) and the body delivered by \<open>text()\<close>.
\<close>

record Response =
  status :: nat
  response_headers :: "string \<rightharpoonup> string"
  body_text :: string

text \<open>
  \<open>headers.get(name)\<close> on a \<open>Headers\<close> object holding the given name-value pairs:
  names compare without regard to ASCII case, values are stripped of leading and trailing
  HTTP white space, and the values of one name are joined by a comma and a space.
\<close>

definition ascii_lower :: "char \<Rightarrow> char" where
  "ascii_lower c =
     (if 65 \<le> (of_char c :: nat) \<and> (of_char c :: nat) \<le> 90
      then char_of ((of_char c :: nat) + 32) else c)"

definition is_http_space :: "char \<Rightarrow> bool" where
  "is_http_space c = ((of_char c :: nat) \<in> {9, 10, 13, 32})"

definition http_trim :: "string \<Rightarrow> string" where
  "http_trim s = rev (dropWhile is_http_space (rev (dropWhile is_http_space s)))"

fun join_values :: "string list \<Rightarrow> string" where
  "join_values [] = []"
| "join_values [v] = v"
| "join_values (v # vs) = v @ '', '' @ join_values vs"

definition headers_get :: "(string \<times> string) list \<Rightarrow> string \<Rightarrow> string option" where
  "headers_get hs name =
     (let vs = map (\<lambda>(k, v). http_trim v)
                 (filter (\<lambda>(k, v). map ascii_lower k = map ascii_lower name) hs)
      in if vs = [] then None else Some (join_values vs))"

type_synonym call = "string \<times> RequestInit"

text \<open>
  The platform functions the client calls and does not define. \<open>JSON_parse\<close> returns
  \<open>None\<close> where \<open>JSON.parse\<close> throws. \<open>transport\<close> is the remote end behind
  \<open>fetch\<close>: given the calls made so far, the URL and the init object it answers with a
  response or a rejection. Every theorem below holds for every such runtime.
\<close>

record runtime =
  JSON_parse :: "string \<Rightarrow> json option"
  JSON_stringify :: "json \<Rightarrow> string"
  encodeURIComponent :: "string \<Rightarrow> string"
  transport :: "call list \<Rightarrow> string \<Rightarrow> RequestInit \<Rightarrow> js_error + Response"

text \<open>
  \<open>fetch\<close> with a spy: the state is the list of calls sent so far, and each send
  appends one entry.
\<close>

definition fetch :: "runtime \<Rightarrow> string \<Rightarrow> RequestInit \<Rightarrow> call list \<Rightarrow> (js_error + Response) \<times> call list" where
  "fetch rt url init sent = (transport rt sent url init, sent @ [(url, init)])"

section \<open>The client\<close>

record DatabricksClientImpl =
  credentials :: TenantCredentials
  baseUrl :: string

text \<open>\<open>s.replace(/\/$/, '')\<close>: the pattern matches one slash at the very end.\<close>

definition strip_trailing_slash :: "string \<Rightarrow> string" where
  "strip_trailing_slash s = (if s \<noteq> [] \<and> last s = CHR ''/'' then butlast s else s)"

definition createDatabricksClient :: "TenantCredentials \<Rightarrow> DatabricksClientImpl" where
  "createDatabricksClient creds =
     \<lparr>credentials = creds, baseUrl = strip_trailing_slash (host creds)\<rparr>"

definition getAuthHeaders :: "DatabricksClientImpl \<Rightarrow> js_error + (string \<times> string) list" where
  "getAuthHeaders this =
     (if token (credentials this) = [] then
        Inl (AuthenticationError ''No credentials provided. Include X-Databricks-Token header.'')
      else
        Inr [(''Authorization'', ''Bearer '' @ token (credentials this)),
             (''Content-Type'', ''application/json'')])"

text \<open>
  The init object of the \<open>fetch\<close> call in \<open>request\<close>:
  \<open>{...options, headers: {...auth, ...(options.headers || {})}}\<close>.
\<close>

definition fetch_init :: "(string \<times> string) list \<Rightarrow> RequestInit \<Rightarrow> RequestInit" where
  "fetch_init auth options =
     options\<lparr>headers := Some (spread auth (case headers options of None \<Rightarrow> [] | Some h \<Rightarrow> h))\<rparr>"

definition response_ok :: "Response \<Rightarrow> bool" where
  "response_ok response = (200 \<le> status response \<and> status response \<le> 299)"

text \<open>
  The part of \<open>request\<close> after the \<open>await fetch\<close>: the status checks in the order of
  the source. In the error branch a \<open>JSON.parse\<close> failure and the \<open>TypeError\<close> of
  reading a property of \<open>null\<close> are both caught, leaving the default message and no
  code.
\<close>

definition interpret_response :: "runtime \<Rightarrow> Response \<Rightarrow> js_error + json option" where
  "interpret_response rt response =
     (if status response = 429 then
        (let retryAfter = response_headers response ''Retry-After''
         in Inl (RateLimitError ''Rate limit exceeded''
              (case retryAfter of
                 None \<Rightarrow> Num 60
               | Some h \<Rightarrow> if h \<noteq> [] then parseInt h else Num 60)))
      else if status response = 401 \<or> status response = 403 then
        Inl (AuthenticationError ''Authentication failed. Check your Databricks personal access token.'')
      else if \<not> response_ok response then
        (let errorBody = body_text response;
             message = JString (''API error: '' @ string_of_nat (status response))
         in case JSON_parse rt errorBody of
              None \<Rightarrow> Inl (DatabricksApiError message (status response) None)
            | Some errorJson \<Rightarrow>
                (case get_prop (Some errorJson) ''message'' of
                   Inl _ \<Rightarrow> Inl (DatabricksApiError message (status response) None)
                 | Inr m \<Rightarrow>
                     (case get_prop (Some errorJson) ''error'' of
                        Inl _ \<Rightarrow> Inl (DatabricksApiError message (status response) None)
                      | Inr e \<Rightarrow>
                          (case get_prop (Some errorJson) ''error_code'' of
                             Inl _ \<Rightarrow> Inl (DatabricksApiError message (status response) None)
                           | Inr errorCode \<Rightarrow>
                               Inl (DatabricksApiError (or_default m (or_default e message))
                                      (status response) errorCode)))))
      else if status response = 204 then Inr None
      else
        (let text = body_text response
         in if text = [] then Inr None
            else (case JSON_parse rt text of
                    None \<Rightarrow> Inl SyntaxError
                  | Some v \<Rightarrow> Inr (Some v))))"

text \<open>
  \<open>request\<close>: the URL is built, \<open>getAuthHeaders\<close> runs while the argument of
  \<open>fetch\<close> is evaluated (so its throw precedes the send), then the send and the
  interpretation of the response. A rejected \<open>fetch\<close> propagates.
\<close>

definition request :: "runtime \<Rightarrow> DatabricksClientImpl \<Rightarrow> string \<Rightarrow> RequestInit \<Rightarrow> call list \<Rightarrow> (js_error + json option) \<times> call list" where
  "request rt this endpoint options sent =
     (let url = baseUrl this @ endpoint
      in case getAuthHeaders this of
           Inl e \<Rightarrow> (Inl e, sent)
         | Inr auth \<Rightarrow>
             (case fetch rt url (fetch_init auth options) sent of
                (Inl e, sent') \<Rightarrow> (Inl e, sent')
              | (Inr response, sent') \<Rightarrow> (interpret_response rt response, sent')))"

text \<open>\<open>body ? JSON.stringify(body) : undefined\<close>\<close>

definition encode_body :: "runtime \<Rightarrow> json option \<Rightarrow> string option" where
  "encode_body rt payload =
     (case payload of
        None \<Rightarrow> None
      | Some v \<Rightarrow> if truthy v then Some (JSON_stringify rt v) else None)"

definition get :: "runtime \<Rightarrow> DatabricksClientImpl \<Rightarrow> string \<Rightarrow> call list \<Rightarrow> (js_error + json option) \<times> call list" where
  "get rt this endpoint = request rt this endpoint \<lparr>init_method = Some GET, body = None, headers = None\<rparr>"

definition post :: "runtime \<Rightarrow> DatabricksClientImpl \<Rightarrow> string \<Rightarrow> json option \<Rightarrow> call list \<Rightarrow> (js_error + json option) \<times> call list" where
  "post rt this endpoint payload =
     request rt this endpoint \<lparr>init_method = Some POST, body = encode_body rt payload, headers = None\<rparr>"

definition put :: "runtime \<Rightarrow> DatabricksClientImpl \<Rightarrow> string \<Rightarrow> json option \<Rightarrow> call list \<Rightarrow> (js_error + json option) \<times> call list" where
  "put rt this endpoint payload =
     request rt this endpoint \<lparr>init_method = Some PUT, body = encode_body rt payload, headers = None\<rparr>"

definition patch :: "runtime \<Rightarrow> DatabricksClientImpl \<Rightarrow> string \<Rightarrow> json option \<Rightarrow> call list \<Rightarrow> (js_error + json option) \<times> call list" where
  "patch rt this endpoint payload =
     request rt this endpoint \<lparr>init_method = Some PATCH, body = encode_body rt payload, headers = None\<rparr>"

definition delete :: "runtime \<Rightarrow> DatabricksClientImpl \<Rightarrow> string \<Rightarrow> json option \<Rightarrow> call list \<Rightarrow> (js_error + json option) \<times> call list" where
  "delete rt this endpoint payload =
     request rt this endpoint \<lparr>init_method = Some DELETE, body = encode_body rt payload, headers = None\<rparr>"

section \<open>List operations\<close>

text \<open>
  The shape shared by the list operations:
  \<open>const response = await this.get(path); return response.key || []\<close>.
  The property read throws a \<open>TypeError\<close> when the pipeline returned \<open>undefined\<close>
  (a 204 or an empty body) or \<open>null\<close>.
\<close>

definition unwrap_envelope :: "string \<Rightarrow> (js_error + json option) \<times> call list \<Rightarrow> (js_error + json) \<times> call list" where
  "unwrap_envelope key r =
     (case r of
        (Inl e, sent') \<Rightarrow> (Inl e, sent')
      | (Inr response, sent') \<Rightarrow>
          (case get_prop response key of
             Inl e \<Rightarrow> (Inl e, sent')
           | Inr v \<Rightarrow> (Inr (or_default v (JArray [])), sent')))"

definition listWarehouses :: "runtime \<Rightarrow> DatabricksClientImpl \<Rightarrow> call list \<Rightarrow> (js_error + json) \<times> call list" where
  "listWarehouses rt this sent =
     unwrap_envelope ''warehouses'' (get rt this ''/api/2.0/sql/warehouses'' sent)"

definition listClusters :: "runtime \<Rightarrow> DatabricksClientImpl \<Rightarrow> call list \<Rightarrow> (js_error + json) \<times> call list" where
  "listClusters rt this sent =
     unwrap_envelope ''clusters'' (get rt this ''/api/2.0/clusters/list'' sent)"

definition listSecretAcls :: "runtime \<Rightarrow> DatabricksClientImpl \<Rightarrow> string \<Rightarrow> call list \<Rightarrow> (js_error + json) \<times> call list" where
  "listSecretAcls rt this scope sent =
     unwrap_envelope ''items''
       (get rt this (''/api/2.0/secrets/acls/list?scope='' @ encodeURIComponent rt scope) sent)"

section \<open>The client as an object\<close>

text \<open>
  The instance and what surrounds it: \<open>object\<close> holds the two private fields of the
  class, \<open>calls\<close> the calls sent so far.
\<close>

record world =
  object :: DatabricksClientImpl
  calls :: "call list"


text \<open>
  A method body as a program. No method of the class reads or writes a field itself:
  the only members a body uses are the five wrappers, so a body is a sequence of awaited
  wrapper calls, each given by its HTTP method, path and payload, whose outcome (the
  result, or the error for a \<open>catch\<close>) decides how the body goes on, until it returns
  or throws.
\<close>

datatype 'a program =
    Return 'a
  | Throw js_error
  | Await http_method string "json option" "js_error + json option \<Rightarrow> 'a program"

definition wrapper :: "runtime \<Rightarrow> http_method \<Rightarrow> DatabricksClientImpl \<Rightarrow> string \<Rightarrow> json option \<Rightarrow> call list \<Rightarrow> (js_error + json option) \<times> call list" where
  "wrapper rt m this endpoint payload =
     (case m of
        GET \<Rightarrow> get rt this endpoint
      | POST \<Rightarrow> post rt this endpoint payload
      | PUT \<Rightarrow> put rt this endpoint payload
      | PATCH \<Rightarrow> patch rt this endpoint payload
      | DELETE \<Rightarrow> delete rt this endpoint payload)"

text \<open>Running a body on the instance: each wrapper is called on the fields as they are.\<close>

primrec run :: "runtime \<Rightarrow> 'a program \<Rightarrow> world \<Rightarrow> (js_error + 'a) \<times> world" where
  "run rt (Return a) w = (Inr a, w)"
| "run rt (Throw e) w = (Inl e, w)"
| "run rt (Await m endpoint payload k) w =
     (case wrapper rt m (object w) endpoint payload (calls w) of
        (r, sent') \<Rightarrow> run rt (k r) (w\<lparr>calls := sent'\<rparr>))"

text \<open>An \<open>await\<close> outside any \<open>try\<close>: an error ends the body.\<close>

definition await :: "http_method \<Rightarrow> string \<Rightarrow> json option \<Rightarrow> (json option \<Rightarrow> 'a program) \<Rightarrow> 'a program" where
  "await m endpoint payload k =
     Await m endpoint payload (\<lambda>r. case r of Inl e \<Rightarrow> Throw e | Inr v \<Rightarrow> k v)"

text \<open>Some method bodies; a \<open>void\<close> method returns \<open>undefined\<close>.\<close>

definition listWarehouses_program :: "json option program" where
  "listWarehouses_program =
     await GET ''/api/2.0/sql/warehouses'' None
       (\<lambda>response. case get_prop response ''warehouses'' of
                      Inl e \<Rightarrow> Throw e
                    | Inr v \<Rightarrow> Return (Some (or_default v (JArray []))))"

definition getPipeline_program :: "string \<Rightarrow> json option program" where
  "getPipeline_program pipelineId = await GET (''/api/2.0/pipelines/'' @ pipelineId) None Return"

definition createPipeline_program :: "json \<Rightarrow> json option program" where
  "createPipeline_program spec = await POST ''/api/2.0/pipelines'' (Some spec) Return"

definition updatePipeline_program :: "string \<Rightarrow> json \<Rightarrow> json option program" where
  "updatePipeline_program pipelineId spec =
     await PUT (''/api/2.0/pipelines/'' @ pipelineId) (Some spec) (\<lambda>_. Return None)"

definition deletePipeline_program :: "string \<Rightarrow> json option program" where
  "deletePipeline_program pipelineId =
     await DELETE (''/api/2.0/pipelines/'' @ pipelineId) None (\<lambda>_. Return None)"

definition stopPipeline_program :: "string \<Rightarrow> json option program" where
  "stopPipeline_program pipelineId =
     await POST (''/api/2.0/pipelines/'' @ pipelineId @ ''/stop'') None (\<lambda>_. Return None)"

definition updateCatalog_program :: "runtime \<Rightarrow> string \<Rightarrow> json \<Rightarrow> json option program" where
  "updateCatalog_program rt name options =
     await PATCH (''/api/2.1/unity-catalog/catalogs/'' @ encodeURIComponent rt name)
       (Some options) Return"

section \<open>The worker's fetch handler\<close>

text \<open>What the handler reads of the inbound request.\<close>

record InboundRequest =
  pathname :: string
  request_method :: string
  request_headers :: "string \<rightharpoonup> string"

text \<open>\<open>headers.get(name) || ''\<close> and \<open>headers.get(name) || undefined\<close>\<close>

definition parseTenantCredentials :: "InboundRequest \<Rightarrow> TenantCredentials" where
  "parseTenantCredentials req =
     \<lparr>host = (case request_headers req ''X-Databricks-Host'' of None \<Rightarrow> [] | Some h \<Rightarrow> h),
      token = (case request_headers req ''X-Databricks-Token'' of None \<Rightarrow> [] | Some t \<Rightarrow> t),
      warehouseId = (case request_headers req ''X-Databricks-Warehouse-Id'' of
                       None \<Rightarrow> None
                     | Some w \<Rightarrow> if w = [] then None else Some w)\<rparr>"

text \<open>
  The responses of the handler, by kind: the health payload, the 401 response with the
  message of the validation error, the answer of the MCP handler, the 501 of the SSE
  path, and the default catalog.
\<close>

datatype 'r worker_response =
    Health
  | Unauthorized string
  | Mcp 'r
  | SseUnavailable
  | ServerInfo

text \<open>
  The worker's \<open>fetch\<close>. \<open>mcp\<close> stands for \<open>createStatelessServer\<close> followed by the
  SDK's handler: it receives the client built from the credentials and is the only part
  that may send. In the \<open>catch\<close>, \<open>validateCredentials\<close> only ever throws a plain
  \<open>Error\<close>, whose message is forwarded.
\<close>

definition fetch_handler :: "(DatabricksClientImpl \<Rightarrow> InboundRequest \<Rightarrow> call list \<Rightarrow> 'r \<times> call list) \<Rightarrow> InboundRequest \<Rightarrow> call list \<Rightarrow> 'r worker_response \<times> call list" where
  "fetch_handler mcp req sent =
     (if pathname req = ''/health'' then (Health, sent)
      else if pathname req = ''/mcp'' \<and> request_method req = ''POST'' then
        (let credentials = parseTenantCredentials req
         in case validateCredentials credentials of
              Inl e \<Rightarrow>
                (Unauthorized (case e of Error m \<Rightarrow> m | _ \<Rightarrow> ''Invalid credentials''), sent)
            | Inr _ \<Rightarrow>
                (case mcp (createDatabricksClient credentials) req sent of
                   (r, sent') \<Rightarrow> (Mcp r, sent')))
      else if pathname req = ''/sse'' then (SseUnavailable, sent)
      else (ServerInfo, sent))"

section \<open>Test doubles\<close>

text \<open>
  A stub runtime for concrete runs: the transport answers every call with one fixed
  response, and \<open>JSON.parse\<close> and \<open>JSON.stringify\<close> are tabulated on the texts and
  values the examples use (\<open>stub_parse\<close> rejects every other text, as \<open>JSON.parse\<close>
  rejects a text that is not JSON).
\<close>

definition stub_parse :: "string \<Rightarrow> json option" where
  \<open>stub_parse s =
     (if s = ''{"message":"internal failure","error_code":"E1"}'' then
        Some (JObject [(''message'', JString ''internal failure''), (''error_code'', JString ''E1'')])
      else if s = ''{"items":[1,2,3]}'' then
        Some (JObject [(''items'', JArray [JNumber 1, JNumber 2, JNumber 3])])
      else if s = ''{"warehouses":[1,2,3]}'' then
        Some (JObject [(''warehouses'', JArray [JNumber 1, JNumber 2, JNumber 3])])
      else if s = ''{"error":"not found"}'' then
        Some (JObject [(''error'', JString ''not found'')])
      else if s = ''{"message":"","error":"denied"}'' then
        Some (JObject [(''message'', JString []), (''error'', JString ''denied'')])
      else if s = ''{}'' then Some (JObject [])
      else if s = ''null'' then Some JNull
      else None)\<close>

definition stub_stringify :: "json \<Rightarrow> string" where
  \<open>stub_stringify v =
     (if v = JObject [] then ''{}''
      else if v = JObject [(''path'', JString ''/tmp'')] then ''{"path":"/tmp"}''
      else if v = JNumber 0 then ''0''
      else if v = JBool False then ''false''
      else [])\<close>

definition stub_runtime :: "Response \<Rightarrow> runtime" where
  "stub_runtime response =
     \<lparr>JSON_parse = stub_parse, JSON_stringify = stub_stringify,
      encodeURIComponent = (\<lambda>s. s),
      transport = (\<lambda>sent url init. Inr response)\<rparr>"

definition stub_response :: "nat \<Rightarrow> (string \<times> string) list \<Rightarrow> string \<Rightarrow> Response" where
  "stub_response code hs text =
     \<lparr>status = code, response_headers = headers_get hs, body_text = text\<rparr>"

definition example_client :: "string \<Rightarrow> DatabricksClientImpl" where
  "example_client h = createDatabricksClient \<lparr>host = h, token = ''dapi123'', warehouseId = None\<rparr>"

text \<open>A stub MCP handler that runs one list operation with the client it is given.\<close>

definition stub_mcp :: "DatabricksClientImpl \<Rightarrow> InboundRequest \<Rightarrow> call list \<Rightarrow> (js_error + json) \<times> call list" where
  "stub_mcp client req sent = listClusters (stub_runtime (stub_response 200 [] ''{}'')) client sent"

definition inbound :: "(string \<times> string) list \<Rightarrow> InboundRequest" where
  "inbound hs =
     \<lparr>pathname = ''/mcp'', request_method = ''POST'', request_headers = headers_get hs\<rparr>"

section \<open>Environment numbers\<close>

text \<open>
  \<open>getEnvNumber\<close>: \<open>env\<close> gives the binding under a key when it is a string. Unlike the
  rate-limit branch of \<open>request\<close>, this function tests the parsed number with
  \<open>Number.isNaN\<close> and falls back to the default.
\<close>

definition getEnvNumber :: "(string \<rightharpoonup> string) \<Rightarrow> string \<Rightarrow> jsnum \<Rightarrow> jsnum" where
  "getEnvNumber env key defaultValue =
     (case env key of
        Some v \<Rightarrow> (let parsed = parseInt v in if parsed = NaN then defaultValue else parsed)
      | None \<Rightarrow> defaultValue)"

section \<open>Basic facts about the pipeline\<close>

lemma request_without_token:
  "token (credentials this) = [] \<Longrightarrow>
   request rt this endpoint options sent =
     (Inl (AuthenticationError ''No credentials provided. Include X-Databricks-Token header.''), sent)"
  by (simp add: request_def getAuthHeaders_def)

lemma getAuthHeaders_token:
  "token (credentials this) \<noteq> [] \<Longrightarrow>
   getAuthHeaders this = Inr [(''Authorization'', ''Bearer '' @ token (credentials this)),
                              (''Content-Type'', ''application/json'')]"
  by (simp add: getAuthHeaders_def)

lemma request_sends:
  "getAuthHeaders this = Inr auth \<Longrightarrow>
   request rt this endpoint options sent =
     (case transport rt sent (baseUrl this @ endpoint) (fetch_init auth options) of
        Inl e \<Rightarrow> Inl e
      | Inr response \<Rightarrow> interpret_response rt response,
      sent @ [(baseUrl this @ endpoint, fetch_init auth options)])"
  by (simp add: request_def fetch_def Let_def split: sum.splits)

lemma request_response:
  "getAuthHeaders this = Inr auth \<Longrightarrow>
   fetch rt (baseUrl this @ endpoint) (fetch_init auth options) sent = (Inr response, sent') \<Longrightarrow>
   request rt this endpoint options sent = (interpret_response rt response, sent')"
  by (simp add: request_def Let_def)

lemma request_rejected:
  "getAuthHeaders this = Inr auth \<Longrightarrow>
   fetch rt (baseUrl this @ endpoint) (fetch_init auth options) sent = (Inl e, sent') \<Longrightarrow>
   request rt this endpoint options sent = (Inl e, sent')"
  by (simp add: request_def Let_def)

lemma spread_empty: "spread a [] = a"
  by (simp add: spread_def)

lemma fetch_init_no_headers:
  "headers options = None \<Longrightarrow> headers (fetch_init auth options) = Some auth"
  by (simp add: fetch_init_def spread_empty)

lemma fetch_init_keeps:
  "init_method (fetch_init auth options) = init_method options"
  "body (fetch_init auth options) = body options"
  by (simp_all add: fetch_init_def)

lemma success_without_content:
  assumes "getAuthHeaders this = Inr auth"
    and "fetch rt (baseUrl this @ endpoint) (fetch_init auth options) sent = (Inr response, sent')"
    and "status response = 204 \<or> (response_ok response \<and> body_text response = [])"
  shows "fst (request rt this endpoint options sent) = Inr None"
proof -
  have "interpret_response rt response = Inr None"
    using assms(3) by (auto simp add: interpret_response_def response_ok_def)
  then show ?thesis
    using assms(1,2) by (simp add: request_response)
qed

lemma string_of_500: "string_of_nat 500 = ''500''"
  by code_simp

lemma headers_get_Nil [simp]: "headers_get [] name = None"
  by (simp add: headers_get_def)

lemma headers_get_retry_after:
  "headers_get [(''Retry-After'', ''30'')] ''Retry-After'' = Some ''30''"
  "headers_get [(''Retry-After'', ''Wed, 21 Oct 2015 07:28:00 GMT'')] ''Retry-After'' =
     Some ''Wed, 21 Oct 2015 07:28:00 GMT''"
  "headers_get [(''Retry-After'', ''abc'')] ''Retry-After'' = Some ''abc''"
  by code_simp+

lemma headers_get_credentials:
  "headers_get [(''X-Databricks-Token'', ''dapi123'')] ''X-Databricks-Host'' = None"
  "headers_get [(''X-Databricks-Token'', ''dapi123'')] ''X-Databricks-Token'' = Some ''dapi123''"
  "headers_get [(''X-Databricks-Token'', ''dapi123'')] ''X-Databricks-Warehouse-Id'' = None"
  "headers_get [(''X-Databricks-Host'', ''https://example.com''), (''X-Databricks-Token'', ''dapi123'')]
     ''X-Databricks-Host'' = Some ''https://example.com''"
  "headers_get [(''X-Databricks-Host'', ''https://example.com''), (''X-Databricks-Token'', ''dapi123'')]
     ''X-Databricks-Token'' = Some ''dapi123''"
  "headers_get [(''X-Databricks-Host'', ''https://example.com''), (''X-Databricks-Token'', ''dapi123'')]
     ''X-Databricks-Warehouse-Id'' = None"
  by code_simp+

lemma headers_get_case_and_space:
  "headers_get [(''retry-after'', '' 30 '')] ''Retry-After'' = Some ''30''"
  "headers_get [(''x-databricks-host'', ''https://example.com '')] ''X-Databricks-Host'' =
     Some ''https://example.com''"
  by code_simp+

section \<open>Rate limiting (C1)\<close>

lemma rate_limited_request:
  assumes "getAuthHeaders this = Inr auth"
    and "fetch rt (baseUrl this @ endpoint) (fetch_init auth options) sent = (Inr response, sent')"
    and "status response = 429"
  shows "fst (request rt this endpoint options sent) =
           Inl (RateLimitError ''Rate limit exceeded''
                  (case response_headers response ''Retry-After'' of
                     None \<Rightarrow> Num 60
                   | Some h \<Rightarrow> if h = [] then Num 60 else parseInt h))"
  using assms by (simp add: request_response interpret_response_def split: option.splits)

lemma parseInt_no_digit:
  "s \<noteq> [] \<Longrightarrow> \<not> is_white_space (hd s) \<Longrightarrow> hd s \<noteq> CHR ''-'' \<Longrightarrow> hd s \<noteq> CHR ''+'' \<Longrightarrow>
   \<not> is_digit (hd s) \<Longrightarrow> parseInt s = NaN"
  by (cases s) (simp_all add: parseInt_def)

lemma getEnvNumber_defaults_on_nan:
  "env key = Some v \<Longrightarrow> parseInt v = NaN \<Longrightarrow> getEnvNumber env key d = d"
  by (simp add: getEnvNumber_def)

lemma parseInt_30: "parseInt ''30'' = Num 30"
  by code_simp

lemma parseInt_date: "parseInt ''Wed, 21 Oct 2015 07:28:00 GMT'' = NaN"
  by code_simp

lemma parseInt_abc: "parseInt ''abc'' = NaN"
  by code_simp

text \<open>
  Claim C1: a response with status 429 makes the pipeline fail with \<open>RateLimitError\<close>
  whose retry-after seconds are the integer value of the \<open>Retry-After\<close> header when it
  is present and parseable, and 60 when it is absent or not parseable.
  The code evaluated: header \<open>30\<close> gives 30 and an absent header gives 60, but a header
  that is present and not parseable (an HTTP date, or \<open>abc\<close>) gives \<open>NaN\<close>, not 60:
  the result of \<open>Number.parseInt\<close> is passed on unchecked.
\<close>

theorem unparseable_retry_after_gives_nan:
  "fst (get (stub_runtime (stub_response 429 [(''Retry-After'', ''30'')] []))
         (example_client ''https://example.com'') ''/api/2.0/clusters/list'' []) =
     Inl (RateLimitError ''Rate limit exceeded'' (Num 30))
   \<and> fst (get (stub_runtime (stub_response 429 [] []))
         (example_client ''https://example.com'') ''/api/2.0/clusters/list'' []) =
     Inl (RateLimitError ''Rate limit exceeded'' (Num 60))
   \<and> fst (get (stub_runtime (stub_response 429 [(''Retry-After'', ''Wed, 21 Oct 2015 07:28:00 GMT'')] []))
         (example_client ''https://example.com'') ''/api/2.0/clusters/list'' []) =
     Inl (RateLimitError ''Rate limit exceeded'' NaN)
   \<and> fst (get (stub_runtime (stub_response 429 [(''Retry-After'', ''abc'')] []))
         (example_client ''https://example.com'') ''/api/2.0/clusters/list'' []) =
     Inl (RateLimitError ''Rate limit exceeded'' NaN)"
  by (simp add: get_def request_def getAuthHeaders_def fetch_def interpret_response_def
        example_client_def createDatabricksClient_def stub_runtime_def stub_response_def
        parseInt_30 parseInt_date parseInt_abc headers_get_retry_after)

section \<open>Authentication failures (C2)\<close>

lemma interpret_auth_status:
  "status response = 401 \<or> status response = 403 \<Longrightarrow>
   interpret_response rt response =
     Inl (AuthenticationError ''Authentication failed. Check your Databricks personal access token.'')"
  by (auto simp add: interpret_response_def)

text \<open>
  Claim C2: a response with status 401 or 403 makes the pipeline fail with
  \<open>AuthenticationError\<close> and one fixed message that tells the caller to check the token;
  any two such responses, whatever their bodies, headers, clients and runtimes, give the
  same error, so nothing of the remote body reaches the message.
\<close>

theorem auth_status_gives_fixed_error:
  assumes "getAuthHeaders this = Inr auth"
    and "fetch rt (baseUrl this @ endpoint) (fetch_init auth options) sent = (Inr response, sent')"
    and "status response = 401 \<or> status response = 403"
    and "getAuthHeaders this' = Inr auth'"
    and "fetch rt' (baseUrl this' @ endpoint') (fetch_init auth' options') sent1 = (Inr response', sent1')"
    and "status response' = 401 \<or> status response' = 403"
  shows "fst (request rt this endpoint options sent) =
           Inl (AuthenticationError ''Authentication failed. Check your Databricks personal access token.'')
       \<and> fst (request rt' this' endpoint' options' sent1) = fst (request rt this endpoint options sent)"
  using assms by (simp add: request_response interpret_auth_status)

theorem auth_status_gives_fixed_error_witness:
  "fst (request (stub_runtime (stub_response 401 [] ''invalid token dapi123''))
         (example_client ''https://example.com'') ''/api/2.0/clusters/list''
         \<lparr>init_method = Some GET, body = None, headers = None\<rparr> []) =
     Inl (AuthenticationError ''Authentication failed. Check your Databricks personal access token.'')
   \<and> fst (request (stub_runtime (stub_response 403 [] ''forbidden''))
         (example_client ''https://example.com'') ''/api/2.0/clusters/list''
         \<lparr>init_method = Some GET, body = None, headers = None\<rparr> []) =
     fst (request (stub_runtime (stub_response 401 [] ''invalid token dapi123''))
         (example_client ''https://example.com'') ''/api/2.0/clusters/list''
         \<lparr>init_method = Some GET, body = None, headers = None\<rparr> [])"
  by (rule auth_status_gives_fixed_error
        [where response = "stub_response 401 [] ''invalid token dapi123''"
           and response' = "stub_response 403 [] ''forbidden''"])
     (simp_all add: example_client_def createDatabricksClient_def getAuthHeaders_def
        fetch_def stub_runtime_def stub_response_def)

section \<open>The token gate and the outbound headers (C3)\<close>

text \<open>
  Claim C3: through each of the five wrappers, a client with an empty token fails with
  \<open>AuthenticationError\<close> and the list of sent calls is unchanged (the transport is never
  invoked); with a non-empty token exactly one call is sent, to the base URL followed by
  the endpoint, and its headers are \<open>Authorization: Bearer <token>\<close> and
  \<open>Content-Type: application/json\<close>.
\<close>

theorem token_gate_and_auth_headers:
  assumes "w = get rt this endpoint \<or> w = post rt this endpoint payload
         \<or> w = put rt this endpoint payload \<or> w = patch rt this endpoint payload
         \<or> w = delete rt this endpoint payload"
  shows "(token (credentials this) = [] \<longrightarrow>
            (\<exists>m. fst (w sent) = Inl (AuthenticationError m)) \<and> snd (w sent) = sent)
       \<and> (token (credentials this) \<noteq> [] \<longrightarrow>
            (\<exists>init. snd (w sent) = sent @ [(baseUrl this @ endpoint, init)]
               \<and> headers init = Some [(''Authorization'', ''Bearer '' @ token (credentials this)),
                                       (''Content-Type'', ''application/json'')]))"
proof (cases "token (credentials this) = []")
  case True
  then show ?thesis
    using assms
    by (auto simp add: get_def post_def put_def patch_def delete_def request_without_token)
next
  case False
  then have "getAuthHeaders this =
      Inr [(''Authorization'', ''Bearer '' @ token (credentials this)),
           (''Content-Type'', ''application/json'')]"
    by (rule getAuthHeaders_token)
  then show ?thesis
    using assms False
    by (auto simp add: get_def post_def put_def patch_def delete_def request_sends
          fetch_init_no_headers)
qed

theorem token_gate_and_auth_headers_witness:
  "(\<exists>m. fst (post (stub_runtime (stub_response 200 [] []))
        (createDatabricksClient \<lparr>host = ''https://example.com'', token = [], warehouseId = None\<rparr>)
        ''/api/2.0/workspace/mkdirs'' (Some (JObject [(''path'', JString ''/tmp'')])) []) =
          Inl (AuthenticationError m))
   \<and> snd (post (stub_runtime (stub_response 200 [] []))
        (createDatabricksClient \<lparr>host = ''https://example.com'', token = [], warehouseId = None\<rparr>)
        ''/api/2.0/workspace/mkdirs'' (Some (JObject [(''path'', JString ''/tmp'')])) []) = []
   \<and> map (\<lambda>c. (fst c, headers (snd c)))
        (snd (post (stub_runtime (stub_response 200 [] [])) (example_client ''https://example.com'')
          ''/api/2.0/workspace/mkdirs'' (Some (JObject [(''path'', JString ''/tmp'')])) [])) =
       [(''https://example.com/api/2.0/workspace/mkdirs'',
         Some [(''Authorization'', ''Bearer dapi123''), (''Content-Type'', ''application/json'')])]"
  using token_gate_and_auth_headers
      [of "post (stub_runtime (stub_response 200 [] []))
             (createDatabricksClient \<lparr>host = ''https://example.com'', token = [], warehouseId = None\<rparr>)
             ''/api/2.0/workspace/mkdirs'' (Some (JObject [(''path'', JString ''/tmp'')]))"
          "stub_runtime (stub_response 200 [] [])"
          "createDatabricksClient \<lparr>host = ''https://example.com'', token = [], warehouseId = None\<rparr>"
          "''/api/2.0/workspace/mkdirs''" "Some (JObject [(''path'', JString ''/tmp'')])" "[]"]
    token_gate_and_auth_headers
      [of "post (stub_runtime (stub_response 200 [] [])) (example_client ''https://example.com'')
             ''/api/2.0/workspace/mkdirs'' (Some (JObject [(''path'', JString ''/tmp'')]))"
          "stub_runtime (stub_response 200 [] [])"
          "example_client ''https://example.com''"
          "''/api/2.0/workspace/mkdirs''" "Some (JObject [(''path'', JString ''/tmp'')])" "[]"]
  by (auto simp add: example_client_def createDatabricksClient_def strip_trailing_slash_def)

section \<open>Host normalisation (C4)\<close>

lemma strip_trailing_slash_snoc: "strip_trailing_slash (h @ ''/'') = h"
  by (simp add: strip_trailing_slash_def)

text \<open>
  Claim C4, as amended: construction removes exactly one trailing slash from the host, so
  the base URL has no trailing slash for every host that does not end in two slashes;
  the hosts \<open>https://example.com/\<close> and \<open>https://example.com\<close> both give the outbound
  URL \<open>https://example.com\<close> followed by the path, for every path.
\<close>

theorem base_url_strips_one_trailing_slash:
  "(\<forall>h. host creds = h @ ''/'' \<longrightarrow> baseUrl (createDatabricksClient creds) = h)
   \<and> (host creds = [] \<or> last (host creds) \<noteq> CHR ''/'' \<longrightarrow>
        baseUrl (createDatabricksClient creds) = host creds)
   \<and> ((\<forall>h. host creds \<noteq> h @ ''//'') \<longrightarrow>
        baseUrl (createDatabricksClient creds) = [] \<or>
        last (baseUrl (createDatabricksClient creds)) \<noteq> CHR ''/'')
   \<and> ((host creds = ''https://example.com/'' \<or> host creds = ''https://example.com'')
        \<and> token creds \<noteq> [] \<longrightarrow>
        map fst (snd (request rt (createDatabricksClient creds) path options sent)) =
          map fst sent @ [''https://example.com'' @ path])"
proof -
  have a: "\<forall>h. host creds = h @ ''/'' \<longrightarrow> baseUrl (createDatabricksClient creds) = h"
    by (simp add: createDatabricksClient_def strip_trailing_slash_snoc)
  have b: "host creds = [] \<or> last (host creds) \<noteq> CHR ''/'' \<longrightarrow>
        baseUrl (createDatabricksClient creds) = host creds"
    by (auto simp add: createDatabricksClient_def strip_trailing_slash_def)
  have c: "(\<forall>h. host creds \<noteq> h @ ''//'') \<longrightarrow>
        baseUrl (createDatabricksClient creds) = [] \<or>
        last (baseUrl (createDatabricksClient creds)) \<noteq> CHR ''/''"
  proof (intro impI)
    assume nd: "\<forall>h. host creds \<noteq> h @ ''//''"
    show "baseUrl (createDatabricksClient creds) = [] \<or>
        last (baseUrl (createDatabricksClient creds)) \<noteq> CHR ''/''"
    proof (cases "host creds \<noteq> [] \<and> last (host creds) = CHR ''/''")
      case False
      then show ?thesis
        by (auto simp add: createDatabricksClient_def strip_trailing_slash_def)
    next
      case True
      then obtain h where h: "host creds = h @ ''/''"
        by (metis append_butlast_last_id)
      have "h = [] \<or> last h \<noteq> CHR ''/''"
      proof (rule ccontr)
        assume "\<not> (h = [] \<or> last h \<noteq> CHR ''/'')"
        then have "h = butlast h @ ''/''"
          by (metis append_butlast_last_id)
        then have "host creds = butlast h @ ''//''"
          using h by (metis append.assoc append_Cons append_Nil)
        with nd show False by blast
      qed
      then show ?thesis
        using h by (simp add: createDatabricksClient_def strip_trailing_slash_snoc)
    qed
  qed
  have d: "(host creds = ''https://example.com/'' \<or> host creds = ''https://example.com'')
        \<and> token creds \<noteq> [] \<longrightarrow>
        map fst (snd (request rt (createDatabricksClient creds) path options sent)) =
          map fst sent @ [''https://example.com'' @ path]"
    by (auto simp add: request_def getAuthHeaders_def fetch_def createDatabricksClient_def
          strip_trailing_slash_def Let_def split: sum.splits prod.splits)
  from a b c d show ?thesis by blast
qed

theorem base_url_strips_one_trailing_slash_witness:
  "baseUrl (example_client ''https://example.com/'') = ''https://example.com''
   \<and> baseUrl (example_client ''https://example.com'') = ''https://example.com''
   \<and> map fst (snd (request (stub_runtime (stub_response 200 [] [])) (example_client ''https://example.com/'')
        ''/api/2.0/clusters/list'' \<lparr>init_method = Some GET, body = None, headers = None\<rparr> [])) =
       [''https://example.com/api/2.0/clusters/list'']
   \<and> map fst (snd (request (stub_runtime (stub_response 200 [] [])) (example_client ''https://example.com'')
        ''/api/2.0/clusters/list'' \<lparr>init_method = Some GET, body = None, headers = None\<rparr> [])) =
       [''https://example.com/api/2.0/clusters/list'']
   \<and> last (baseUrl (example_client ''https://example.com/'')) \<noteq> CHR ''/''"
proof -
  let ?a = "\<lparr>host = ''https://example.com/'', token = ''dapi123'', warehouseId = None\<rparr>"
  let ?b = "\<lparr>host = ''https://example.com'', token = ''dapi123'', warehouseId = None\<rparr>"
  let ?rt = "stub_runtime (stub_response 200 [] [])"
  let ?o = "\<lparr>init_method = Some GET, body = None, headers = None\<rparr>"
  have nd: "\<forall>h. host ?a \<noteq> h @ ''//''"
  proof (intro allI notI)
    fix h assume "host ?a = h @ ''//''"
    then have "rev (host ?a) = rev (h @ ''//'')" by (rule arg_cong)
    then show False by simp
  qed
  have sl: "host ?a = ''https://example.com'' @ ''/''" by simp
  have ns: "host ?b = [] \<or> last (host ?b) \<noteq> CHR ''/''" by simp
  note A = base_url_strips_one_trailing_slash
             [of ?a ?rt "''/api/2.0/clusters/list''" ?o "[]"]
  note B = base_url_strips_one_trailing_slash
             [of ?b ?rt "''/api/2.0/clusters/list''" ?o "[]"]
  have 1: "baseUrl (createDatabricksClient ?a) = ''https://example.com''"
    using A sl by blast
  have 2: "baseUrl (createDatabricksClient ?b) = ''https://example.com''"
    using B ns by simp
  have 3: "baseUrl (createDatabricksClient ?a) = [] \<or>
           last (baseUrl (createDatabricksClient ?a)) \<noteq> CHR ''/''"
    using A nd by blast
  have 4: "map fst (snd (request ?rt (createDatabricksClient ?a) ''/api/2.0/clusters/list'' ?o [])) =
       [''https://example.com/api/2.0/clusters/list'']"
    using A by simp
  have 5: "map fst (snd (request ?rt (createDatabricksClient ?b) ''/api/2.0/clusters/list'' ?o [])) =
       [''https://example.com/api/2.0/clusters/list'']"
    using B by simp
  from 1 2 3 4 5 show ?thesis
    by (simp add: example_client_def)
qed

text \<open>
  Claim C4 as stated fails: a host that ends in two slashes keeps one of them, and the
  outbound URL then has a double slash before the path.
\<close>

theorem double_slash_host_keeps_a_slash:
  "baseUrl (example_client ''https://example.com//'') = ''https://example.com/''
   \<and> last (baseUrl (example_client ''https://example.com//'')) = CHR ''/''
   \<and> map fst (snd (get (stub_runtime (stub_response 200 [] [])) (example_client ''https://example.com//'')
                      ''/api/2.0/clusters/list'' [])) =
       [''https://example.com//api/2.0/clusters/list'']"
  by (simp add: example_client_def createDatabricksClient_def strip_trailing_slash_def
        get_def request_def getAuthHeaders_def fetch_def stub_runtime_def)

section \<open>Other failures (C5)\<close>

lemma interpret_api_error:
  assumes "status response \<noteq> 429" "status response \<noteq> 401" "status response \<noteq> 403"
    and "\<not> response_ok response"
  shows "interpret_response rt response =
     Inl (case JSON_parse rt (body_text response) of
            None \<Rightarrow>
              DatabricksApiError (JString (''API error: '' @ string_of_nat (status response)))
                (status response) None
          | Some errorJson \<Rightarrow>
              (case get_prop (Some errorJson) ''message'' of
                 Inl _ \<Rightarrow>
                   DatabricksApiError (JString (''API error: '' @ string_of_nat (status response)))
                     (status response) None
               | Inr _ \<Rightarrow>
                   DatabricksApiError
                     (or_default (projr (get_prop (Some errorJson) ''message''))
                       (or_default (projr (get_prop (Some errorJson) ''error''))
                         (JString (''API error: '' @ string_of_nat (status response)))))
                     (status response) (projr (get_prop (Some errorJson) ''error_code''))))"
  using assms
  by (auto simp add: interpret_response_def Let_def get_prop_def
        split: option.splits json.splits sum.splits)

lemma digit_char_code: "d < 10 \<Longrightarrow> (of_char (digit_char d) :: nat) = 48 + d"
proof -
  assume "d < 10"
  then have "d \<in> {0, 1, 2, 3, 4, 5, 6, 7, 8, 9}" by auto
  then show ?thesis
    by (auto simp add: digit_char_def)
qed

lemma digit_char_in_digits: "d < 10 \<Longrightarrow> digit_char d \<in> set ''0123456789''"
  unfolding digit_char_def by (rule nth_mem) simp

lemma string_of_nat_nonempty: "string_of_nat n \<noteq> []"
  by (subst string_of_nat.simps) simp

lemma string_of_nat_digits: "set (string_of_nat n) \<subseteq> set ''0123456789''"
proof (induction n rule: string_of_nat.induct)
  case (1 n)
  show ?case
  proof (cases "n < 10")
    case True
    then show ?thesis
      using digit_char_in_digits[of n] by (subst string_of_nat.simps) simp
  next
    case False
    have "n mod 10 < 10" by simp
    then have "digit_char (n mod 10) \<in> set ''0123456789''" by (rule digit_char_in_digits)
    then show ?thesis
      using False 1 by (subst string_of_nat.simps) simp
  qed
qed

lemma string_of_nat_value:
  "foldl (\<lambda>acc c. 10 * acc + (of_char c - 48)) 0 (string_of_nat n) = n"
proof (induction n rule: string_of_nat.induct)
  case (1 n)
  show ?case
  proof (cases "n < 10")
    case True
    then show ?thesis
      by (subst string_of_nat.simps) (simp add: digit_char_code)
  next
    case False
    have m: "n mod 10 < 10" by simp
    show ?thesis
      using False 1 by (subst string_of_nat.simps) (simp add: digit_char_code[OF m])
  qed
qed

lemma string_of_nat_leading:
  "hd (string_of_nat n) = CHR ''0'' \<Longrightarrow> string_of_nat n = ''0''"
proof (induction n rule: string_of_nat.induct)
  case (1 n)
  show ?case
  proof (cases "n < 10")
    case True
    have "hd (string_of_nat n) = digit_char n"
      using True by (subst string_of_nat.simps) simp
    with "1.prems" have "(of_char (digit_char n) :: nat) = 48" by simp
    then have "n = 0" using digit_char_code[OF True] by simp
    then show ?thesis by (subst string_of_nat.simps) (simp add: digit_char_def)
  next
    case False
    have "hd (string_of_nat n) = hd (string_of_nat (n div 10))"
      using False string_of_nat_nonempty[of "n div 10"]
      by (subst string_of_nat.simps) simp
    with "1.prems" 1 False have z: "string_of_nat (n div 10) = ''0''" by simp
    have "foldl (\<lambda>acc c. 10 * acc + (of_char c - 48)) 0 (string_of_nat (n div 10)) = n div 10"
      by (rule string_of_nat_value)
    then have "n div 10 = 0" unfolding z by simp
    with False show ?thesis by simp
  qed
qed


lemma truthy_iff: "truthy v \<longleftrightarrow> v \<notin> {JNull, JBool False, JNumber 0, JString []}"
  by (cases v) auto

lemma or_default_truthy:
  "v \<notin> {JNull, JBool False, JNumber 0, JString []} \<Longrightarrow> or_default (Some v) d = v"
  by (simp add: or_default_def truthy_iff)

lemma or_default_falsy:
  "a \<in> {None, Some JNull, Some (JBool False), Some (JNumber 0), Some (JString [])} \<Longrightarrow>
   or_default a d = d"
  by (auto simp add: or_default_def)

lemma api_message_cases:
  fixes d :: json
  defines "F \<equiv> {None, Some JNull, Some (JBool False), Some (JNumber 0), Some (JString [])}"
  shows "(\<forall>m. a = Some m \<and> m \<notin> {JNull, JBool False, JNumber 0, JString []} \<longrightarrow>
            or_default a (or_default b d) = m)
       \<and> (\<forall>e. a \<in> F \<and> b = Some e \<and> e \<notin> {JNull, JBool False, JNumber 0, JString []} \<longrightarrow>
            or_default a (or_default b d) = e)
       \<and> (a \<in> F \<and> b \<in> F \<longrightarrow> or_default a (or_default b d) = d)"
proof (intro conjI allI impI)
  fix m assume "a = Some m \<and> m \<notin> {JNull, JBool False, JNumber 0, JString []}"
  then show "or_default a (or_default b d) = m"
    using or_default_truthy[of m] by simp
next
  fix e assume h: "a \<in> F \<and> b = Some e \<and> e \<notin> {JNull, JBool False, JNumber 0, JString []}"
  then have "or_default a (or_default b d) = or_default b d"
    unfolding F_def by (intro or_default_falsy) simp
  also have "\<dots> = e"
    using h or_default_truthy[of e d] by simp
  finally show "or_default a (or_default b d) = e" .
next
  assume h: "a \<in> F \<and> b \<in> F"
  then have "or_default a (or_default b d) = or_default b d"
    unfolding F_def by (intro or_default_falsy) simp
  also have "\<dots> = d"
    using h unfolding F_def by (intro or_default_falsy) simp
  finally show "or_default a (or_default b d) = d" .
qed

lemma decimal_numeral:
  "string_of_nat n \<noteq> [] \<and> set (string_of_nat n) \<subseteq> set ''0123456789''
   \<and> (hd (string_of_nat n) = CHR ''0'' \<longrightarrow> string_of_nat n = ''0'')
   \<and> foldl (\<lambda>acc c. 10 * acc + (of_char c - 48)) 0 (string_of_nat n) = n"
  by (intro conjI impI string_of_nat_nonempty string_of_nat_digits string_of_nat_leading
        string_of_nat_value)

lemma api_error_shape:
  assumes "status response \<noteq> 429" "status response \<noteq> 401" "status response \<noteq> 403"
    and "\<not> response_ok response"
  shows "(JSON_parse rt (body_text response) = None \<longrightarrow>
            interpret_response rt response =
              Inl (DatabricksApiError (JString (''API error: '' @ string_of_nat (status response)))
                     (status response) None))
       \<and> (\<forall>kvs. JSON_parse rt (body_text response) = Some (JObject kvs) \<longrightarrow>
            interpret_response rt response =
              Inl (DatabricksApiError
                     (or_default (map_of kvs ''message'')
                        (or_default (map_of kvs ''error'')
                           (JString (''API error: '' @ string_of_nat (status response)))))
                     (status response) (map_of kvs ''error_code'')))
       \<and> (\<exists>message code. interpret_response rt response =
              Inl (DatabricksApiError message (status response) code))"
  unfolding interpret_api_error[OF assms, of rt]
  by (auto simp add: get_prop_def split: option.splits json.splits)

text \<open>
  Claim C5: a response whose status is not 2xx and not 429, 401 or 403 makes the pipeline
  fail with the API error carrying the response status. When the body parses to a JSON
  object, the code is its \<open>error_code\<close> field and the message is its \<open>message\<close> field
  when that is present and truthy, else its \<open>error\<close> field when that is present and
  truthy, else the default message. When parsing fails, the code is undefined and the
  message is the default one. The default message is \<open>API error: \<close> followed by the
  decimal numeral of the status: digits only, no leading zero, with the status as value.
\<close>

theorem other_failure_gives_api_error:
  assumes "getAuthHeaders this = Inr auth"
    and "fetch rt (baseUrl this @ endpoint) (fetch_init auth options) sent = (Inr response, sent')"
    and "status response \<noteq> 429" and "status response \<noteq> 401" and "status response \<noteq> 403"
    and "\<not> response_ok response"
  shows "\<exists>message code ds.
           fst (request rt this endpoint options sent) =
             Inl (DatabricksApiError message (status response) code)
         \<and> (ds \<noteq> [] \<and> set ds \<subseteq> set ''0123456789'' \<and> (hd ds = CHR ''0'' \<longrightarrow> ds = ''0'')
            \<and> foldl (\<lambda>acc c. 10 * acc + (of_char c - 48)) 0 ds = status response)
         \<and> (JSON_parse rt (body_text response) = None \<longrightarrow>
               message = JString (''API error: '' @ ds) \<and> code = None)
         \<and> (\<forall>kvs. JSON_parse rt (body_text response) = Some (JObject kvs) \<longrightarrow>
               code = map_of kvs ''error_code''
             \<and> (\<forall>m. map_of kvs ''message'' = Some m
                     \<and> m \<notin> {JNull, JBool False, JNumber 0, JString []} \<longrightarrow> message = m)
             \<and> (\<forall>e. map_of kvs ''message'' \<in>
                       {None, Some JNull, Some (JBool False), Some (JNumber 0), Some (JString [])}
                     \<and> map_of kvs ''error'' = Some e
                     \<and> e \<notin> {JNull, JBool False, JNumber 0, JString []} \<longrightarrow> message = e)
             \<and> (map_of kvs ''message'' \<in>
                       {None, Some JNull, Some (JBool False), Some (JNumber 0), Some (JString [])}
                   \<and> map_of kvs ''error'' \<in>
                       {None, Some JNull, Some (JBool False), Some (JNumber 0), Some (JString [])}
                   \<longrightarrow> message = JString (''API error: '' @ ds)))"
proof -
  let ?ds = "string_of_nat (status response)"
  let ?d = "JString (''API error: '' @ ?ds)"
  let ?F = "{None, Some JNull, Some (JBool False), Some (JNumber 0), Some (JString [])}"
  have r: "fst (request rt this endpoint options sent) = interpret_response rt response"
    using assms(1,2) by (simp add: request_response)
  note shape = api_error_shape[OF assms(3-6), of rt]
  note num = decimal_numeral[of "status response"]
  show ?thesis
  proof (cases "JSON_parse rt (body_text response)")
    case None
    have p1: "fst (request rt this endpoint options sent) =
        Inl (DatabricksApiError ?d (status response) None)"
      using shape r None by simp
    have p3: "JSON_parse rt (body_text response) = None \<longrightarrow> ?d = ?d \<and> (None :: json option) = None"
      by simp
    have p4: "\<forall>kvs. JSON_parse rt (body_text response) = Some (JObject kvs) \<longrightarrow>
               None = map_of kvs ''error_code''
             \<and> (\<forall>m. map_of kvs ''message'' = Some m
                     \<and> m \<notin> {JNull, JBool False, JNumber 0, JString []} \<longrightarrow> ?d = m)
             \<and> (\<forall>e. map_of kvs ''message'' \<in> ?F
                     \<and> map_of kvs ''error'' = Some e
                     \<and> e \<notin> {JNull, JBool False, JNumber 0, JString []} \<longrightarrow> ?d = e)
             \<and> (map_of kvs ''message'' \<in> ?F \<and> map_of kvs ''error'' \<in> ?F \<longrightarrow> ?d = ?d)"
      by (simp add: None)
    show ?thesis
      by (rule exI[of _ ?d], rule exI[of _ None], rule exI[of _ ?ds])
         (rule conjI[OF p1 conjI[OF num conjI[OF p3 p4]]])
  next
    case (Some v)
    show ?thesis
    proof (cases "\<exists>kvs. v = JObject kvs")
      case True
      then obtain kvs where v: "v = JObject kvs" by blast
      let ?m = "or_default (map_of kvs ''message'') (or_default (map_of kvs ''error'') ?d)"
      have p1: "fst (request rt this endpoint options sent) =
          Inl (DatabricksApiError ?m (status response) (map_of kvs ''error_code''))"
        using shape r Some v by simp
      note cases = api_message_cases[of "map_of kvs ''message''" "map_of kvs ''error''" ?d]
      have p3: "JSON_parse rt (body_text response) = None \<longrightarrow>
               ?m = ?d \<and> map_of kvs ''error_code'' = None"
        by (simp add: Some)
      have p4: "\<forall>kvs'. JSON_parse rt (body_text response) = Some (JObject kvs') \<longrightarrow>
               map_of kvs ''error_code'' = map_of kvs' ''error_code''
             \<and> (\<forall>m. map_of kvs' ''message'' = Some m
                     \<and> m \<notin> {JNull, JBool False, JNumber 0, JString []} \<longrightarrow> ?m = m)
             \<and> (\<forall>e. map_of kvs' ''message'' \<in> ?F
                     \<and> map_of kvs' ''error'' = Some e
                     \<and> e \<notin> {JNull, JBool False, JNumber 0, JString []} \<longrightarrow> ?m = e)
             \<and> (map_of kvs' ''message'' \<in> ?F \<and> map_of kvs' ''error'' \<in> ?F \<longrightarrow> ?m = ?d)"
      proof (intro allI impI)
        fix kvs' assume "JSON_parse rt (body_text response) = Some (JObject kvs')"
        then have k: "kvs' = kvs" using Some v by simp
        show "map_of kvs ''error_code'' = map_of kvs' ''error_code''
             \<and> (\<forall>m. map_of kvs' ''message'' = Some m
                     \<and> m \<notin> {JNull, JBool False, JNumber 0, JString []} \<longrightarrow> ?m = m)
             \<and> (\<forall>e. map_of kvs' ''message'' \<in> ?F
                     \<and> map_of kvs' ''error'' = Some e
                     \<and> e \<notin> {JNull, JBool False, JNumber 0, JString []} \<longrightarrow> ?m = e)
             \<and> (map_of kvs' ''message'' \<in> ?F \<and> map_of kvs' ''error'' \<in> ?F \<longrightarrow> ?m = ?d)"
          unfolding k by (rule conjI[OF refl cases])
      qed
      show ?thesis
        by (rule exI[of _ ?m], rule exI[of _ "map_of kvs ''error_code''"], rule exI[of _ ?ds])
           (rule conjI[OF p1 conjI[OF num conjI[OF p3 p4]]])
    next
      case False
      obtain message code where p1:
        "fst (request rt this endpoint options sent) =
           Inl (DatabricksApiError message (status response) code)"
        using shape r by metis
      have p3: "JSON_parse rt (body_text response) = None \<longrightarrow> message = ?d \<and> code = None"
        by (simp add: Some)
      have p4: "\<forall>kvs. JSON_parse rt (body_text response) = Some (JObject kvs) \<longrightarrow>
               code = map_of kvs ''error_code''
             \<and> (\<forall>m. map_of kvs ''message'' = Some m
                     \<and> m \<notin> {JNull, JBool False, JNumber 0, JString []} \<longrightarrow> message = m)
             \<and> (\<forall>e. map_of kvs ''message'' \<in> ?F
                     \<and> map_of kvs ''error'' = Some e
                     \<and> e \<notin> {JNull, JBool False, JNumber 0, JString []} \<longrightarrow> message = e)
             \<and> (map_of kvs ''message'' \<in> ?F \<and> map_of kvs ''error'' \<in> ?F \<longrightarrow> message = ?d)"
        using False by (simp add: Some)
      show ?thesis
        by (rule exI[of _ message], rule exI[of _ code], rule exI[of _ ?ds])
           (rule conjI[OF p1 conjI[OF num conjI[OF p3 p4]]])
    qed
  qed
qed


lemma string_of_404: "string_of_nat 404 = ''404''"
  by code_simp

lemma string_of_503: "string_of_nat 503 = ''503''"
  by code_simp

lemma stub_failure:
  assumes "code \<noteq> 429" "code \<noteq> 401" "code \<noteq> 403" "\<not> (200 \<le> code \<and> code \<le> 299)"
  shows "fst (request (stub_runtime (stub_response code [] text))
           (example_client ''https://example.com'') endpoint
           \<lparr>init_method = Some GET, body = None, headers = None\<rparr> []) =
         interpret_response (stub_runtime (stub_response code [] text)) (stub_response code [] text)"
  by (simp add: request_def getAuthHeaders_def fetch_def example_client_def
        createDatabricksClient_def stub_runtime_def)

theorem other_failure_gives_api_error_witness:
  "fst (request (stub_runtime (stub_response 500 [] ''{\"message\":\"internal failure\",\"error_code\":\"E1\"}''))
         (example_client ''https://example.com'') ''/api/2.0/clusters/list''
         \<lparr>init_method = Some GET, body = None, headers = None\<rparr> []) =
     Inl (DatabricksApiError (JString ''internal failure'') 500 (Some (JString ''E1'')))
   \<and> fst (request (stub_runtime (stub_response 500 [] ''not json''))
         (example_client ''https://example.com'') ''/api/2.0/clusters/list''
         \<lparr>init_method = Some GET, body = None, headers = None\<rparr> []) =
     Inl (DatabricksApiError (JString ''API error: 500'') 500 None)
   \<and> fst (request (stub_runtime (stub_response 404 [] ''{\"error\":\"not found\"}''))
         (example_client ''https://example.com'') ''/api/2.0/clusters/list''
         \<lparr>init_method = Some GET, body = None, headers = None\<rparr> []) =
     Inl (DatabricksApiError (JString ''not found'') 404 None)
   \<and> fst (request (stub_runtime (stub_response 400 [] ''{\"message\":\"\",\"error\":\"denied\"}''))
         (example_client ''https://example.com'') ''/api/2.0/clusters/list''
         \<lparr>init_method = Some GET, body = None, headers = None\<rparr> []) =
     Inl (DatabricksApiError (JString ''denied'') 400 None)
   \<and> fst (request (stub_runtime (stub_response 503 [] ''{}''))
         (example_client ''https://example.com'') ''/api/2.0/clusters/list''
         \<lparr>init_method = Some GET, body = None, headers = None\<rparr> []) =
     Inl (DatabricksApiError (JString ''API error: 503'') 503 None)"
proof -
  let ?c = "example_client ''https://example.com''"
  let ?auth = "[(''Authorization'', ''Bearer dapi123''), (''Content-Type'', ''application/json'')]"
  let ?o = "\<lparr>init_method = Some GET, body = None, headers = None\<rparr>"
  let ?r1 = "stub_response 500 [] ''{\"message\":\"internal failure\",\"error_code\":\"E1\"}''"
  let ?r3 = "stub_response 404 [] ''{\"error\":\"not found\"}''"
  let ?kvs1 = "[(''message'', JString ''internal failure''), (''error_code'', JString ''E1'')]"
  let ?kvs3 = "[(''error'', JString ''not found'')]"
  have auth: "getAuthHeaders ?c = Inr ?auth"
    by (simp add: getAuthHeaders_def example_client_def createDatabricksClient_def)
  have f1: "fetch (stub_runtime ?r1) (baseUrl ?c @ ''/api/2.0/clusters/list'') (fetch_init ?auth ?o) [] =
      (Inr ?r1, [(baseUrl ?c @ ''/api/2.0/clusters/list'', fetch_init ?auth ?o)])"
    by (simp add: fetch_def stub_runtime_def)
  have f3: "fetch (stub_runtime ?r3) (baseUrl ?c @ ''/api/2.0/clusters/list'') (fetch_init ?auth ?o) [] =
      (Inr ?r3, [(baseUrl ?c @ ''/api/2.0/clusters/list'', fetch_init ?auth ?o)])"
    by (simp add: fetch_def stub_runtime_def)
  have p1: "JSON_parse (stub_runtime ?r1) (body_text ?r1) = Some (JObject ?kvs1)"
    by (simp add: stub_runtime_def stub_response_def stub_parse_def)
  have p3: "JSON_parse (stub_runtime ?r3) (body_text ?r3) = Some (JObject ?kvs3)"
    by (simp add: stub_runtime_def stub_response_def stub_parse_def)
  from other_failure_gives_api_error[OF auth f1]
  obtain m1 c1 where
    e1: "fst (request (stub_runtime ?r1) ?c ''/api/2.0/clusters/list'' ?o []) =
           Inl (DatabricksApiError m1 (status ?r1) c1)"
    and k1: "\<forall>kvs. JSON_parse (stub_runtime ?r1) (body_text ?r1) = Some (JObject kvs) \<longrightarrow>
               c1 = map_of kvs ''error_code''
             \<and> (\<forall>m. map_of kvs ''message'' = Some m
                     \<and> m \<notin> {JNull, JBool False, JNumber 0, JString []} \<longrightarrow> m1 = m)"
    by (auto simp add: stub_response_def response_ok_def)
  from k1 p1 have "c1 = Some (JString ''E1'') \<and> m1 = JString ''internal failure''"
    by simp
  with e1 have w1: "fst (request (stub_runtime ?r1) ?c ''/api/2.0/clusters/list'' ?o []) =
     Inl (DatabricksApiError (JString ''internal failure'') 500 (Some (JString ''E1'')))"
    by (simp add: stub_response_def)
  from other_failure_gives_api_error[OF auth f3]
  obtain m3 c3 where
    e3: "fst (request (stub_runtime ?r3) ?c ''/api/2.0/clusters/list'' ?o []) =
           Inl (DatabricksApiError m3 (status ?r3) c3)"
    and k3: "\<forall>kvs. JSON_parse (stub_runtime ?r3) (body_text ?r3) = Some (JObject kvs) \<longrightarrow>
               c3 = map_of kvs ''error_code''
             \<and> (\<forall>e. map_of kvs ''message'' \<in>
                       {None, Some JNull, Some (JBool False), Some (JNumber 0), Some (JString [])}
                     \<and> map_of kvs ''error'' = Some e
                     \<and> e \<notin> {JNull, JBool False, JNumber 0, JString []} \<longrightarrow> m3 = e)"
    by (auto simp add: stub_response_def response_ok_def)
  from k3 p3 have "c3 = None \<and> m3 = JString ''not found''"
    by simp
  with e3 have w3: "fst (request (stub_runtime ?r3) ?c ''/api/2.0/clusters/list'' ?o []) =
     Inl (DatabricksApiError (JString ''not found'') 404 None)"
    by (simp add: stub_response_def)
  have w2: "fst (request (stub_runtime (stub_response 500 [] ''not json'')) ?c
         ''/api/2.0/clusters/list'' ?o []) =
     Inl (DatabricksApiError (JString ''API error: 500'') 500 None)"
    by (subst stub_failure; simp add: interpret_response_def response_ok_def stub_runtime_def
          stub_response_def stub_parse_def string_of_500)
  have w4: "fst (request (stub_runtime (stub_response 400 [] ''{\"message\":\"\",\"error\":\"denied\"}'')) ?c
         ''/api/2.0/clusters/list'' ?o []) =
     Inl (DatabricksApiError (JString ''denied'') 400 None)"
    by (subst stub_failure; simp add: interpret_response_def response_ok_def stub_runtime_def
          stub_response_def stub_parse_def get_prop_def or_default_def)
  have w5: "fst (request (stub_runtime (stub_response 503 [] ''{}'')) ?c
         ''/api/2.0/clusters/list'' ?o []) =
     Inl (DatabricksApiError (JString ''API error: 503'') 503 None)"
    by (subst stub_failure; simp add: interpret_response_def response_ok_def stub_runtime_def
          stub_response_def stub_parse_def get_prop_def or_default_def string_of_503)
  from w1 w2 w3 w4 w5 show ?thesis by blast
qed

section \<open>Malformed success bodies (C6)\<close>

text \<open>
  Claim C6: a 2xx response other than 204 whose body is not empty and does not parse makes
  the pipeline fail with the \<open>SyntaxError\<close> of \<open>JSON.parse\<close> itself: the failure is none
  of the three pipeline errors and is not turned into a result.
\<close>

theorem malformed_success_body_propagates:
  assumes "getAuthHeaders this = Inr auth"
    and "fetch rt (baseUrl this @ endpoint) (fetch_init auth options) sent = (Inr response, sent')"
    and "response_ok response" and "status response \<noteq> 204"
    and "body_text response \<noteq> []"
    and "JSON_parse rt (body_text response) = None"
  shows "fst (request rt this endpoint options sent) = Inl SyntaxError
       \<and> (\<forall>m. fst (request rt this endpoint options sent) \<noteq> Inl (AuthenticationError m))
       \<and> (\<forall>m n. fst (request rt this endpoint options sent) \<noteq> Inl (RateLimitError m n))
       \<and> (\<forall>m s c. fst (request rt this endpoint options sent) \<noteq> Inl (DatabricksApiError m s c))
       \<and> (\<forall>v. fst (request rt this endpoint options sent) \<noteq> Inr v)"
proof -
  have "interpret_response rt response = Inl SyntaxError"
    using assms(3-6) by (simp add: interpret_response_def response_ok_def)
  then show ?thesis
    using assms(1,2) by (simp add: request_response)
qed

theorem malformed_success_body_propagates_witness:
  "fst (request (stub_runtime (stub_response 200 [] ''not json''))
         (example_client ''https://example.com'') ''/api/2.0/clusters/list''
         \<lparr>init_method = Some GET, body = None, headers = None\<rparr> []) = Inl SyntaxError"
  using malformed_success_body_propagates
      [of "example_client ''https://example.com''"
          "[(''Authorization'', ''Bearer dapi123''), (''Content-Type'', ''application/json'')]"
          "stub_runtime (stub_response 200 [] ''not json'')"
          "''/api/2.0/clusters/list''" "\<lparr>init_method = Some GET, body = None, headers = None\<rparr>" "[]"
          "stub_response 200 [] ''not json''"]
  by (simp add: example_client_def createDatabricksClient_def getAuthHeaders_def fetch_def
        stub_runtime_def stub_response_def stub_parse_def response_ok_def)

section \<open>Request bodies (C7)\<close>

text \<open>
  Claim C7, as amended: \<open>post\<close>, \<open>put\<close>, \<open>patch\<close> and \<open>delete\<close> send no body exactly
  when the payload is \<open>undefined\<close> or falsy (\<open>null\<close>, \<open>false\<close>, \<open>0\<close>, the empty string),
  so neither \<open>undefined\<close> nor \<open>null\<close> is ever encoded; for every other payload, the empty
  object and the empty array included, the body is the JSON encoding of the payload.
\<close>

theorem body_sent_iff_payload_truthy:
  assumes "token (credentials this) \<noteq> []"
    and "w = post \<or> w = put \<or> w = patch \<or> w = delete"
  shows "\<exists>init. snd (w rt this endpoint payload sent) = sent @ [(baseUrl this @ endpoint, init)]
           \<and> body init = (case payload of
                             None \<Rightarrow> None
                           | Some v \<Rightarrow> if truthy v then Some (JSON_stringify rt v) else None)"
proof -
  have "getAuthHeaders this =
      Inr [(''Authorization'', ''Bearer '' @ token (credentials this)),
           (''Content-Type'', ''application/json'')]"
    using assms(1) by (rule getAuthHeaders_token)
  then show ?thesis
    using assms(2)
    by (auto simp add: post_def put_def patch_def delete_def request_sends fetch_init_keeps
          encode_body_def)
qed

theorem body_sent_iff_payload_truthy_witness:
  "map (\<lambda>c. body (snd c))
     (snd (post (stub_runtime (stub_response 200 [] [])) (example_client ''https://example.com'')
            ''/api/2.0/workspace/mkdirs'' (Some (JObject [(''path'', JString ''/tmp'')])) [])) =
     [Some ''{\"path\":\"/tmp\"}'']
   \<and> map (\<lambda>c. body (snd c))
     (snd (delete (stub_runtime (stub_response 200 [] [])) (example_client ''https://example.com'')
            ''/api/2.0/repos/7'' None [])) = [None]"
  using body_sent_iff_payload_truthy
      [of "example_client ''https://example.com''" post "stub_runtime (stub_response 200 [] [])"
          "''/api/2.0/workspace/mkdirs''" "Some (JObject [(''path'', JString ''/tmp'')])" "[]"]
    body_sent_iff_payload_truthy
      [of "example_client ''https://example.com''" delete "stub_runtime (stub_response 200 [] [])"
          "''/api/2.0/repos/7''" None "[]"]
  by (auto simp add: example_client_def createDatabricksClient_def stub_runtime_def
        stub_stringify_def)

text \<open>
  Claim C7 as stated fails in both directions: the empty object is an empty payload and
  its encoding \<open>{}\<close> is sent as the body; the number \<open>0\<close> is neither empty nor undefined
  and no body is sent for it, although its JSON encoding is \<open>0\<close>.
\<close>

theorem empty_object_sent_and_zero_dropped:
  "map (\<lambda>c. body (snd c))
     (snd (post (stub_runtime (stub_response 200 [] [])) (example_client ''https://example.com'')
            ''/api/2.0/pipelines'' (Some (JObject [])) [])) = [Some ''{}'']
   \<and> map (\<lambda>c. body (snd c))
     (snd (post (stub_runtime (stub_response 200 [] [])) (example_client ''https://example.com'')
            ''/api/2.0/pipelines'' (Some (JNumber 0)) [])) = [None]
   \<and> JSON_stringify (stub_runtime (stub_response 200 [] [])) (JNumber 0) = ''0''"
  by (simp add: post_def request_def getAuthHeaders_def fetch_def fetch_init_def
        encode_body_def example_client_def createDatabricksClient_def stub_runtime_def
        stub_stringify_def)

section \<open>List operations (C8)\<close>

lemma get_decoded:
  assumes "token (credentials this) \<noteq> []"
    and "\<forall>url init. transport rt sent url init = Inr response"
    and "response_ok response" and "status response \<noteq> 204" and "body_text response \<noteq> []"
    and "JSON_parse rt (body_text response) = Some v"
  shows "fst (get rt this endpoint sent) = Inr (Some v)"
proof -
  have "interpret_response rt response = Inr (Some v)"
    using assms(3-6) by (simp add: interpret_response_def response_ok_def)
  then show ?thesis
    using assms(2) getAuthHeaders_token[OF assms(1)] by (simp add: get_def request_sends)
qed

lemma fst_unwrap_envelope:
  assumes "fst r = Inr (Some v)" and "v \<noteq> JNull"
  shows "fst (unwrap_envelope key r) =
           Inr (case v of JObject kvs \<Rightarrow> or_default (map_of kvs key) (JArray []) | _ \<Rightarrow> JArray [])"
  using assms
  by (cases r; cases v) (simp_all add: unwrap_envelope_def get_prop_def or_default_def)

text \<open>
  Claim C8, as amended: for \<open>listWarehouses\<close>, \<open>listClusters\<close> and \<open>listSecretAcls\<close>,
  when the 2xx response decodes to a JSON value other than \<open>null\<close>: if it is an object
  whose envelope key holds an array, the operation returns exactly that array, in order;
  if the envelope key is absent, it returns the empty array.
\<close>

theorem list_unwraps_envelope:
  assumes "token (credentials this) \<noteq> []"
    and "\<forall>url init. transport rt sent url init = Inr response"
    and "response_ok response" and "status response \<noteq> 204" and "body_text response \<noteq> []"
    and "JSON_parse rt (body_text response) = Some v"
    and "v \<noteq> JNull"
    and "(f, key) = (listWarehouses rt this, ''warehouses'')
       \<or> (f, key) = (listClusters rt this, ''clusters'')
       \<or> (f, key) = (listSecretAcls rt this scope, ''items'')"
  shows "(\<forall>kvs xs. v = JObject kvs \<and> map_of kvs key = Some (JArray xs) \<longrightarrow>
            fst (f sent) = Inr (JArray xs))
       \<and> ((\<forall>kvs. v = JObject kvs \<longrightarrow> map_of kvs key = None) \<longrightarrow>
            fst (f sent) = Inr (JArray []))"
proof -
  have "fst (f sent) =
      Inr (case v of JObject kvs \<Rightarrow> or_default (map_of kvs key) (JArray []) | _ \<Rightarrow> JArray [])"
    using assms(8) get_decoded[OF assms(1-6)] assms(7)
    by (auto simp add: listWarehouses_def listClusters_def listSecretAcls_def fst_unwrap_envelope)
  then show ?thesis
    by (cases v) (simp_all add: or_default_def)
qed

theorem list_unwraps_envelope_witness:
  "fst (listSecretAcls (stub_runtime (stub_response 200 [] ''{\"items\":[1,2,3]}''))
         (example_client ''https://example.com'') ''scope1'' []) =
     Inr (JArray [JNumber 1, JNumber 2, JNumber 3])
   \<and> fst (listWarehouses (stub_runtime (stub_response 200 [] ''{}''))
         (example_client ''https://example.com'') []) = Inr (JArray [])"
  using list_unwraps_envelope
      [of "example_client ''https://example.com''"
          "stub_runtime (stub_response 200 [] ''{\"items\":[1,2,3]}'')" "[]"
          "stub_response 200 [] ''{\"items\":[1,2,3]}''"
          "JObject [(''items'', JArray [JNumber 1, JNumber 2, JNumber 3])]"
          "listSecretAcls (stub_runtime (stub_response 200 [] ''{\"items\":[1,2,3]}''))
             (example_client ''https://example.com'') ''scope1''"
          "''items''" "''scope1''"]
    list_unwraps_envelope
      [of "example_client ''https://example.com''"
          "stub_runtime (stub_response 200 [] ''{}'')" "[]"
          "stub_response 200 [] ''{}''" "JObject []"
          "listWarehouses (stub_runtime (stub_response 200 [] ''{}''))
             (example_client ''https://example.com'')"
          "''warehouses''" "''scope1''"]
  by (simp add: example_client_def createDatabricksClient_def stub_runtime_def stub_response_def
        stub_parse_def response_ok_def)

text \<open>
  Claim C8 as stated fails: the body \<open>null\<close> decodes to a response in which the envelope
  key is absent, and the operation throws a \<open>TypeError\<close> instead of returning the empty
  array; so does a 200 response with an empty body, for which the pipeline returns
  \<open>undefined\<close>.
\<close>

theorem list_on_null_response_throws:
  "fst (get (stub_runtime (stub_response 200 [] ''null'')) (example_client ''https://example.com'')
          ''/api/2.0/sql/warehouses'' []) = Inr (Some JNull)
   \<and> fst (listWarehouses (stub_runtime (stub_response 200 [] ''null''))
          (example_client ''https://example.com'') []) = Inl TypeError
   \<and> fst (listWarehouses (stub_runtime (stub_response 200 [] []))
          (example_client ''https://example.com'') []) = Inl TypeError"
  by (simp add: listWarehouses_def unwrap_envelope_def get_prop_def get_def request_def
        getAuthHeaders_def fetch_def interpret_response_def response_ok_def
        example_client_def createDatabricksClient_def stub_runtime_def stub_response_def
        stub_parse_def)

section \<open>Credential validation (C9)\<close>

text \<open>
  Claim C9: \<open>validateCredentials\<close> fails with the message naming the
  \<open>X-Databricks-Host\<close> header when the host is empty, with the different message naming
  the \<open>X-Databricks-Token\<close> header when the host is not empty and the token is, and
  returns normally when neither is empty. It has no access to the transport. The handler
  of \<open>POST /mcp\<close> validates the parsed credentials first: on failure it answers with
  that message and the list of sent calls is unchanged, whatever the MCP handler would
  do; only on success is the MCP handler run, with the client built from these
  credentials.
\<close>

theorem validate_names_missing_field_before_any_send:
  "(host c = [] \<longrightarrow> validateCredentials c =
      Inl (Error ''Missing X-Databricks-Host header. Provide your Databricks workspace URL.''))
   \<and> (host c \<noteq> [] \<and> token c = [] \<longrightarrow> validateCredentials c =
      Inl (Error ''Missing X-Databricks-Token header. Provide your Databricks personal access token.''))
   \<and> (host c \<noteq> [] \<and> token c \<noteq> [] \<longrightarrow> validateCredentials c = Inr ())
   \<and> (host c = [] \<and> host c' \<noteq> [] \<and> token c' = [] \<longrightarrow>
        validateCredentials c \<noteq> validateCredentials c')
   \<and> (pathname req = ''/mcp'' \<and> request_method req = ''POST'' \<longrightarrow>
        (\<forall>m. validateCredentials (parseTenantCredentials req) = Inl (Error m) \<longrightarrow>
              fetch_handler mcp req sent = (Unauthorized m, sent))
      \<and> (validateCredentials (parseTenantCredentials req) = Inr () \<longrightarrow>
              fetch_handler mcp req sent =
                (Mcp (fst (mcp (createDatabricksClient (parseTenantCredentials req)) req sent)),
                 snd (mcp (createDatabricksClient (parseTenantCredentials req)) req sent))))"
  by (auto simp add: validateCredentials_def fetch_handler_def Let_def split: prod.splits)

theorem validate_names_missing_field_before_any_send_witness:
  "validateCredentials \<lparr>host = [], token = ''dapi123'', warehouseId = None\<rparr> =
     Inl (Error ''Missing X-Databricks-Host header. Provide your Databricks workspace URL.'')
   \<and> validateCredentials \<lparr>host = ''https://example.com'', token = [], warehouseId = None\<rparr> =
     Inl (Error ''Missing X-Databricks-Token header. Provide your Databricks personal access token.'')
   \<and> validateCredentials \<lparr>host = ''https://example.com'', token = ''dapi123'', warehouseId = None\<rparr> = Inr ()
   \<and> validateCredentials \<lparr>host = [], token = ''dapi123'', warehouseId = None\<rparr> \<noteq>
       validateCredentials \<lparr>host = ''https://example.com'', token = [], warehouseId = None\<rparr>
   \<and> fetch_handler stub_mcp (inbound [(''X-Databricks-Token'', ''dapi123'')]) [] =
       (Unauthorized ''Missing X-Databricks-Host header. Provide your Databricks workspace URL.'', [])
   \<and> fst (fetch_handler stub_mcp
        (inbound [(''X-Databricks-Host'', ''https://example.com''), (''X-Databricks-Token'', ''dapi123'')]) []) =
       Mcp (Inr (JArray []))"
  using validate_names_missing_field_before_any_send
      [of "\<lparr>host = [], token = ''dapi123'', warehouseId = None\<rparr>"
          "\<lparr>host = ''https://example.com'', token = [], warehouseId = None\<rparr>"
          "inbound [(''X-Databricks-Token'', ''dapi123'')]" stub_mcp "[]"]
    validate_names_missing_field_before_any_send
      [of "\<lparr>host = ''https://example.com'', token = [], warehouseId = None\<rparr>"
          "\<lparr>host = ''https://example.com'', token = [], warehouseId = None\<rparr>"
          "inbound [(''X-Databricks-Host'', ''https://example.com''), (''X-Databricks-Token'', ''dapi123'')]"
          stub_mcp "[]"]
    validate_names_missing_field_before_any_send
      [of "\<lparr>host = ''https://example.com'', token = ''dapi123'', warehouseId = None\<rparr>"
          "\<lparr>host = ''https://example.com'', token = [], warehouseId = None\<rparr>"
          "inbound [(''X-Databricks-Host'', ''https://example.com''), (''X-Databricks-Token'', ''dapi123'')]"
          stub_mcp "[]"]
  by (simp add: inbound_def parseTenantCredentials_def validateCredentials_def stub_mcp_def
        headers_get_credentials
        listClusters_def unwrap_envelope_def get_prop_def or_default_def get_def request_def
        getAuthHeaders_def fetch_def interpret_response_def response_ok_def
        createDatabricksClient_def stub_runtime_def stub_response_def stub_parse_def)

section \<open>Statelessness (C10)\<close>

lemma request_twice_same_answer:
  assumes first: "request rt this endpoint options sent = (r1, sent1)"
    and second: "request rt this endpoint options sent1 = (r2, sent2)"
    and same: "\<forall>auth. getAuthHeaders this = Inr auth \<longrightarrow>
                 transport rt sent1 (baseUrl this @ endpoint) (fetch_init auth options) =
                 transport rt sent (baseUrl this @ endpoint) (fetch_init auth options)"
  shows "r2 = r1 \<and> (\<exists>cs. sent1 = sent @ cs \<and> sent2 = sent1 @ cs)"
proof (cases "token (credentials this) = []")
  case True
  then show ?thesis
    using first second by (simp add: request_without_token)
next
  case False
  note auth = getAuthHeaders_token[OF False]
  show ?thesis
    using first second same auth by (auto simp add: request_sends)
qed





lemma run_listWarehouses:
  "run rt listWarehouses_program w =
     (map_sum id Some (fst (listWarehouses rt (object w) (calls w))),
      w\<lparr>calls := snd (listWarehouses rt (object w) (calls w))\<rparr>)"
proof -
  obtain r sent' where g: "get rt (object w) ''/api/2.0/sql/warehouses'' (calls w) = (r, sent')"
    by (cases "get rt (object w) ''/api/2.0/sql/warehouses'' (calls w)")
  show ?thesis
    by (cases r; cases "get_prop (projr r) ''warehouses''")
       (simp_all add: listWarehouses_program_def await_def wrapper_def listWarehouses_def
          unwrap_envelope_def g)
qed




end
